theory Spec2Isabelle
  imports Complex_Main "HOL-Library.Sublist"
begin

section \<open>Conventions of the embedding\<close>

text \<open>
  The development embeds the two C files of the driver, \<^verbatim>\<open>splinter_transform.c\<close> and
  \<^verbatim>\<open>bspline_main.c\<close>.

  \<^item> A C \<^verbatim>\<open>double\<close> is a \<^typ>\<open>real\<close>: infinities and NaN are not represented, and
    the arithmetic is exact, with one exception: where the program converts a double
    result to an \<^verbatim>\<open>int\<close> (the output size computed by \<^verbatim>\<open>parse_geometry\<close>), the
    rounded operation and the conversion are written out.
  \<^item> A C \<^verbatim>\<open>int\<close> is an \<^typ>\<open>int\<close>. Signed overflow is undefined in C, so the
    embedding and the program agree on every run in which no \<^verbatim>\<open>int\<close> operation
    overflows. The counter of the loop of \<^verbatim>\<open>fix_precision\<close>, which overflows for a
    large precision, is bounded by \<^verbatim>\<open>INT_MAX\<close> as in the program.
  \<^item> A buffer of doubles reached through a pointer is a store \<^typ>\<open>int \<Rightarrow> real\<close>
    from element offsets to values; a pointer into it is an offset.
  \<^item> The Splinter library (\<^verbatim>\<open>splinter.h\<close>, \<^verbatim>\<open>bspline.h\<close>) and the homography
    helpers (\<^verbatim>\<open>homography_tools.h\<close>) are called by the driver but are not part of
    the two files: they are parameters, collected in a record.
\<close>

section \<open>The external routines\<close>

text \<open>The enumeration \<^verbatim>\<open>BoundaryExt\<close>, with the four constants the driver names.\<close>

datatype BoundaryExt =
  BOUNDARY_CONSTANT | BOUNDARY_PERIODIC | BOUNDARY_HSYMMETRIC | BOUNDARY_WSYMMETRIC

text \<open>
  \<^verbatim>\<open>invert_homography(iH, H)\<close> and \<^verbatim>\<open>apply_homography(q, p, H)\<close> write their first
  argument; here they return it. \<^verbatim>\<open>splinter_plan(in, w, h, c, n, boundary, eps, larger)\<close>
  returns the plan, and \<^verbatim>\<open>splinter(outp, x, y, plan)\<close> fills the buffer \<^verbatim>\<open>outp\<close>,
  which is returned as a function of the channel index.
\<close>

record 'plan splinter_lib =
  MAX_ORDER :: int
  invert_homography :: "real list \<Rightarrow> real list"
  apply_homography :: "real \<times> real \<Rightarrow> real list \<Rightarrow> real \<times> real"
  splinter_plan ::
    "real list \<Rightarrow> int \<Rightarrow> int \<Rightarrow> int \<Rightarrow> int \<Rightarrow> BoundaryExt \<Rightarrow> real \<Rightarrow> int \<Rightarrow> 'plan"
  splinter :: "real \<Rightarrow> real \<Rightarrow> 'plan \<Rightarrow> int \<Rightarrow> real"

text \<open>The calls made to the Splinter library, in the order in which they happen.\<close>

datatype 'plan call =
  Call_splinter_plan "real list" int int int int BoundaryExt real int
| Call_splinter real real 'plan
| Call_splinter_destroy_plan 'plan

section \<open>splinter\_transform.c\<close>

text \<open>
  The state of \<^verbatim>\<open>splinter_homography_geom\<close>: the moving pointer \<^verbatim>\<open>out\<close>, the
  memory it points into, and the library calls made so far.
\<close>

record 'plan state =
  out :: int
  mem :: "int \<Rightarrow> real"
  calls :: "'plan call list"

text \<open>The innermost loop, \<^verbatim>\<open>for(int k=0; k<c; k++) out[k*wout*hout] = outp[k];\<close>\<close>

function loop_k ::
  "int \<Rightarrow> int \<Rightarrow> int \<Rightarrow> int \<Rightarrow> int \<Rightarrow> (int \<Rightarrow> real) \<Rightarrow> (int \<Rightarrow> real) \<Rightarrow> int \<Rightarrow> real"
where
  "loop_k k c wout hout outptr outp m =
     (if k < c
      then loop_k (k + 1) c wout hout outptr outp (m(outptr + k * wout * hout := outp k))
      else m)"
  by pat_completeness auto
termination
  by (relation "measure (\<lambda>(k, c, wout, hout, outptr, outp, m). nat (c - k))") auto

text \<open>
  The body of the loop over the columns \<^verbatim>\<open>i\<close> of one output row, where \<^verbatim>\<open>p1\<close> is
  \<^verbatim>\<open>p[1]\<close>: map the point, interpolate, store the channels, advance \<^verbatim>\<open>out\<close>.
\<close>

definition loop_i_body ::
  "'plan splinter_lib \<Rightarrow> real list \<Rightarrow> 'plan \<Rightarrow> real \<Rightarrow> real \<Rightarrow> int \<Rightarrow> int \<Rightarrow> int \<Rightarrow> int \<Rightarrow>
   'plan state \<Rightarrow> 'plan state"
where
  "loop_i_body L iH plan x0 p1 wout hout c i s =
     (let p0 = of_int i + x0;
          q = apply_homography L (p0, p1) iH;
          outp = splinter L (fst q) (snd q) plan;
          m = loop_k 0 c wout hout (out s) outp (mem s)
      in s\<lparr>out := out s + 1, mem := m,
            calls := calls s @ [Call_splinter (fst q) (snd q) plan]\<rparr>)"

text \<open>The loop \<^verbatim>\<open>for(int i = 0; i < wout; i++)\<close>.\<close>

function loop_i ::
  "'plan splinter_lib \<Rightarrow> real list \<Rightarrow> 'plan \<Rightarrow> real \<Rightarrow> real \<Rightarrow> int \<Rightarrow> int \<Rightarrow> int \<Rightarrow> int \<Rightarrow>
   'plan state \<Rightarrow> 'plan state"
where
  "loop_i L iH plan x0 p1 wout hout c i s =
     (if i < wout
      then loop_i L iH plan x0 p1 wout hout c (i + 1)
             (loop_i_body L iH plan x0 p1 wout hout c i s)
      else s)"
  by pat_completeness auto
termination
  by (relation "measure (\<lambda>(L, iH, plan, x0, p1, wout, hout, c, i, s). nat (wout - i))") auto

text \<open>The loop \<^verbatim>\<open>for(int j = 0; j < hout; j++)\<close>, which sets \<^verbatim>\<open>p[1] = j+y0\<close>.\<close>

function loop_j ::
  "'plan splinter_lib \<Rightarrow> real list \<Rightarrow> 'plan \<Rightarrow> real \<Rightarrow> real \<Rightarrow> int \<Rightarrow> int \<Rightarrow> int \<Rightarrow> int \<Rightarrow>
   'plan state \<Rightarrow> 'plan state"
where
  "loop_j L iH plan x0 y0 wout hout c j s =
     (if j < hout
      then loop_j L iH plan x0 y0 wout hout c (j + 1)
             (loop_i L iH plan x0 (of_int j + y0) wout hout c 0 s)
      else s)"
  by pat_completeness auto
termination
  by (relation "measure (\<lambda>(L, iH, plan, x0, y0, wout, hout, c, j, s). nat (hout - j))") auto

text \<open>
  \<^verbatim>\<open>splinter_homography_geom(out, x0, y0, wout, hout, in, w, h, c, n, boundary, eps,
  larger, H)\<close>. The extra argument \<^verbatim>\<open>m\<close> is the memory before the call; the result holds
  the memory after it and the library calls. The scratch buffer \<^verbatim>\<open>outp\<close> is local and
  freed before returning.
\<close>

definition splinter_homography_geom ::
  "'plan splinter_lib \<Rightarrow> (int \<Rightarrow> real) \<Rightarrow> int \<Rightarrow> real \<Rightarrow> real \<Rightarrow> int \<Rightarrow> int \<Rightarrow>
   real list \<Rightarrow> int \<Rightarrow> int \<Rightarrow> int \<Rightarrow> int \<Rightarrow> BoundaryExt \<Rightarrow> real \<Rightarrow> int \<Rightarrow> real list \<Rightarrow>
   'plan state"
where
  "splinter_homography_geom L m outptr x0 y0 wout hout inp w h c n boundary eps larger H =
     (let iH = invert_homography L H;
          plan = splinter_plan L inp w h c n boundary eps larger;
          s = loop_j L iH plan x0 y0 wout hout c 0
                \<lparr>out = outptr, mem = m,
                 calls = [Call_splinter_plan inp w h c n boundary eps larger]\<rparr>
      in s\<lparr>calls := calls s @ [Call_splinter_destroy_plan plan]\<rparr>)"

text \<open>\<^verbatim>\<open>splinter_homography(out, in, w, h, c, n, boundary, eps, larger, H)\<close>\<close>

definition splinter_homography ::
  "'plan splinter_lib \<Rightarrow> (int \<Rightarrow> real) \<Rightarrow> int \<Rightarrow>
   real list \<Rightarrow> int \<Rightarrow> int \<Rightarrow> int \<Rightarrow> int \<Rightarrow> BoundaryExt \<Rightarrow> real \<Rightarrow> int \<Rightarrow> real list \<Rightarrow>
   'plan state"
where
  "splinter_homography L m outptr inp w h c n boundary eps larger H =
     splinter_homography_geom L m outptr 0 0 w h inp w h c n boundary eps larger H"


section \<open>bspline\_main.c\<close>

subsection \<open>The C library and the image reader\<close>

text \<open>The exit statuses of \<^verbatim>\<open><stdlib.h>\<close>.\<close>

definition EXIT_SUCCESS :: int where
  "EXIT_SUCCESS = 0"

definition EXIT_FAILURE :: int where
  "EXIT_FAILURE = 1"

text \<open>
  \<^verbatim>\<open>strlen\<close> and \<^verbatim>\<open>strncmp\<close> on C strings, which are \<^typ>\<open>string\<close>s without the
  terminating zero. \<^verbatim>\<open>strncmp\<close> compares at most \<^verbatim>\<open>n\<close> characters as unsigned
  bytes and stops at the end of either string; only the sign of its result is fixed by
  the C standard, so the result is \<open>-1\<close>, \<open>0\<close> or \<open>1\<close>. A character of a string is
  above the terminator of the other.
\<close>

definition strlen :: "string \<Rightarrow> nat" where
  "strlen s = length s"

fun strncmp :: "string \<Rightarrow> string \<Rightarrow> nat \<Rightarrow> int" where
  "strncmp s1 s2 0 = 0"
| "strncmp [] [] (Suc n) = 0"
| "strncmp [] (b # bs) (Suc n) = - 1"
| "strncmp (a # as) [] (Suc n) = 1"
| "strncmp (a # as) (b # bs) (Suc n) =
     (if a = b then strncmp as bs n
      else if (of_char a :: nat) < of_char b then - 1 else 1)"

text \<open>
  The outcome of \<^verbatim>\<open>sscanf(s, "%lg%c%n", t+i, &c, &w)\<close>: nothing converted (the call
  returns \<open>0\<close> or \<^verbatim>\<open>EOF\<close>), only the number converted (it returns \<open>1\<close> and leaves
  \<^verbatim>\<open>c\<close> and \<^verbatim>\<open>w\<close> as they were), or the number and the character converted (it
  returns \<open>2\<close> and stores the count of characters read in \<^verbatim>\<open>w\<close>).
\<close>

datatype scan = Scan_none | Scan_lg real | Scan_lg_c real char int

text \<open>
  What the driver takes from the C library, from \<^verbatim>\<open>iio\<close> and from the platform:
  \<^item> \<^verbatim>\<open>atoi\<close> and \<^verbatim>\<open>atof\<close>;
  \<^item> \<open>sscanf_lg_c_n s off\<close>, the outcome of the \<^verbatim>\<open>sscanf\<close> above at the address
    \<open>off\<close> characters after the start of the argument \<open>s\<close>. For
    \<open>0 \<le> off \<le> length s\<close> this is a scan of the rest of \<open>s\<close>; for any other
    \<open>off\<close> the read is outside the argument and the field stands for whatever the
    platform does;
  \<^item> \<open>sscanf_geom g\<close>, the outcome \<open>(n, w, h, x, y)\<close> of
    \<^verbatim>\<open>sscanf(g, "%dx%d%lg%lg", w, h, x, y)\<close>: the value \<open>n\<close> returned and the values
    converted, of which only the first \<open>n\<close> are stored;
  \<^item> \<^verbatim>\<open>iio_read_image_double_split\<close>, which returns the samples and the dimensions
    \<open>(in, w, h, c)\<close>;
  \<^item> \<open>w_uninit\<close>, the value found in the uninitialised variable \<^verbatim>\<open>w\<close> of
    \<^verbatim>\<open>parse_doubles\<close>, and \<open>malloc_mem\<close>, the content of the buffer returned by
    \<^verbatim>\<open>malloc\<close> in \<^verbatim>\<open>main\<close>;
  \<^item> \<open>double_sub a b\<close>, the double that the subtraction \<^verbatim>\<open>a - b\<close> of two doubles
    gives, which is the exact difference rounded to a double;
  \<^item> \<open>int_cast_undefined v\<close>, what the conversion \<^verbatim>\<open>(int)v\<close> gives for a double
    whose integer part is outside the range of \<^verbatim>\<open>int\<close>, where C leaves the conversion
    undefined.
\<close>

record libc =
  atoi :: "string \<Rightarrow> int"
  atof :: "string \<Rightarrow> real"
  sscanf_lg_c_n :: "string \<Rightarrow> int \<Rightarrow> scan"
  sscanf_geom :: "string \<Rightarrow> int \<times> int \<times> int \<times> real \<times> real"
  iio_read_image_double_split :: "string \<Rightarrow> real list \<times> int \<times> int \<times> int"
  w_uninit :: int
  malloc_mem :: "int \<Rightarrow> real"
  double_sub :: "real \<Rightarrow> real \<Rightarrow> real"
  int_cast_undefined :: "real \<Rightarrow> int"

text \<open>The limits of \<^verbatim>\<open>int\<close>, of 32 bits, from \<^verbatim>\<open><limits.h>\<close>.\<close>

definition INT_MAX :: int where
  "INT_MAX = 2147483647"

definition INT_MIN :: int where
  "INT_MIN = - 2147483648"

text \<open>
  The conversion \<^verbatim>\<open>(int)v\<close> of a double: the fractional part is discarded, and the
  result is defined when the integer part is in the range of \<^verbatim>\<open>int\<close>.
\<close>

definition int_of_double :: "libc \<Rightarrow> real \<Rightarrow> int" where
  "int_of_double E v =
     (if of_int INT_MIN - 1 < v \<and> v < of_int INT_MAX + 1
      then (if 0 \<le> v then \<lfloor>v\<rfloor> else \<lceil>v\<rceil>)
      else int_cast_undefined E v)"

subsection \<open>parse\_doubles\<close>

text \<open>
  The loop of \<^verbatim>\<open>parse_doubles\<close>. The pointer \<^verbatim>\<open>s\<close> is the offset \<open>off\<close> into the
  argument \<open>str\<close>; \<open>t\<close> lists the values stored so far, \<^verbatim>\<open>t[0]\<close> to \<^verbatim>\<open>t[i-1]\<close>.
\<close>

function parse_doubles_loop ::
  "libc \<Rightarrow> int \<Rightarrow> string \<Rightarrow> int \<Rightarrow> int \<Rightarrow> int \<Rightarrow> real list \<Rightarrow> int \<times> real list"
where
  "parse_doubles_loop E nmax str i off w t =
     (if i < nmax
      then (case sscanf_lg_c_n E str off of
              Scan_none \<Rightarrow> (i, t)
            | Scan_lg d \<Rightarrow> parse_doubles_loop E nmax str (i + 1) (off + w) w (t @ [d])
            | Scan_lg_c d ch w' \<Rightarrow> parse_doubles_loop E nmax str (i + 1) (off + w') w' (t @ [d]))
      else (i, t))"
  by pat_completeness auto
termination
  by (relation "measure (\<lambda>(E, nmax, str, i, off, w, t). nat (nmax - i))") auto

definition parse_doubles :: "libc \<Rightarrow> int \<Rightarrow> string \<Rightarrow> int \<times> real list" where
  "parse_doubles E nmax s = parse_doubles_loop E nmax s 0 0 (w_uninit E) []"

subsection \<open>parse\_geometry\<close>

unbundle bit_operations_syntax

text \<open>
  The corner loop: \<^verbatim>\<open>hc[2*i]\<close> and \<^verbatim>\<open>hc[2*i+1]\<close> receive the image of the corner
  \<^verbatim>\<open>{(i&1)**w, ((i&2)>>1)**h}\<close>, for \<open>i\<close> from 0 to 3.
\<close>

definition corner :: "int \<Rightarrow> int \<Rightarrow> int \<Rightarrow> real \<times> real" where
  "corner w h i = (of_int ((i AND 1) * w), of_int (drop_bit 1 (i AND 2) * h))"

definition transform_corners :: "'plan splinter_lib \<Rightarrow> int \<Rightarrow> int \<Rightarrow> real list \<Rightarrow> real list" where
  "transform_corners L w h H =
     concat (map (\<lambda>i. let q = apply_homography L (corner w h i) H in [fst q, snd q])
               [0, 1, 2, 3])"

text \<open>
  One step of the bounding-box loop on \<^verbatim>\<open>bb = {minx, miny, maxx, maxy}\<close>, and the two
  nested loops \<^verbatim>\<open>for(int s=0; s<=1; s++) for(int i=1; i<4; i++)\<close>.
\<close>

definition bb_step :: "real list \<Rightarrow> nat \<Rightarrow> nat \<Rightarrow> real list \<Rightarrow> real list" where
  "bb_step hc s i bb =
     (if hc ! (2 * i + s) < bb ! s then bb[s := hc ! (2 * i + s)]
      else if hc ! (2 * i + s) > bb ! (s + 2) then bb[s + 2 := hc ! (2 * i + s)]
      else bb)"

definition bounding_box :: "real list \<Rightarrow> real list" where
  "bounding_box hc =
     fold (\<lambda>s bb. fold (bb_step hc s) [1, 2, 3] bb) [0, 1] [hc ! 0, hc ! 1, hc ! 0, hc ! 1]"

text \<open>
  \<^verbatim>\<open>parse_geometry(&x, &y, &w, &h, H, g)\<close> returns its status together with the values
  left in \<^verbatim>\<open>x\<close>, \<^verbatim>\<open>y\<close>, \<^verbatim>\<open>w\<close>, \<^verbatim>\<open>h\<close>.
  In the \<^verbatim>\<open>auto\<close> branch the size is \<^verbatim>\<open>(int)ceil(bb[2]-bb[0])\<close>: a subtraction of
  doubles, the ceiling of a double, which is exact, and a conversion to \<^verbatim>\<open>int\<close>.
\<close>

definition parse_geometry ::
  "'plan splinter_lib \<Rightarrow> libc \<Rightarrow> real \<Rightarrow> real \<Rightarrow> int \<Rightarrow> int \<Rightarrow> real list \<Rightarrow> string \<Rightarrow>
   int \<times> real \<times> real \<times> int \<times> int"
where
  "parse_geometry L E x y w h H g =
     (if 0 = strncmp g ''center'' (strlen g) then
        let c = (x + of_int w / 2, y + of_int h / 2);
            hc = apply_homography L c H
        in (0, fst hc - of_int w / 2, snd hc - of_int h / 2, w, h)
      else if 0 = strncmp g ''auto'' (strlen g) then
        let hc = transform_corners L w h H;
            bb = bounding_box hc
        in (0, bb ! 0, bb ! 1,
            int_of_double E (of_int \<lceil>double_sub E (bb ! 2) (bb ! 0)\<rceil>),
            int_of_double E (of_int \<lceil>double_sub E (bb ! 3) (bb ! 1)\<rceil>))
      else
        (case sscanf_geom E g of (n, sw, sh, sx, sy) \<Rightarrow>
           let w1 = (if 1 \<le> n then sw else w);
               h1 = (if 2 \<le> n then sh else h);
               x1 = (if 3 \<le> n then sx else 0);
               y1 = (if 4 \<le> n then sy else 0)
           in if n \<noteq> 2 \<and> n \<noteq> 4 then (1, x1, y1, w1, h1)
              else if w1 \<le> 0 \<or> h1 \<le> 0 then (1, x1, y1, w1, h1)
              else (0, x1, y1, w1, h1)))"

subsection \<open>read\_ext and fix\_precision\<close>

text \<open>
  \<^verbatim>\<open>read_ext(boundary, &larger)\<close> either calls \<^verbatim>\<open>exit\<close> with a status (\<open>Inl\<close>) or
  returns the extension together with the value left in \<^verbatim>\<open>larger\<close> (\<open>Inr\<close>).
\<close>

definition read_ext :: "string \<Rightarrow> int \<Rightarrow> int + BoundaryExt \<times> int" where
  "read_ext boundary larger =
     (if 0 = strncmp boundary ''constant'' (strlen boundary) then
        Inr (BOUNDARY_CONSTANT, if larger = 0 then 1 else larger)
      else if 0 = strncmp boundary ''periodic'' (strlen boundary) then
        Inr (BOUNDARY_PERIODIC, larger)
      else if 0 = strncmp boundary ''hsymmetric'' (strlen boundary) then
        Inr (BOUNDARY_HSYMMETRIC, larger)
      else if 0 = strncmp boundary ''wsymmetric'' (strlen boundary) then
        Inr (BOUNDARY_WSYMMETRIC, larger)
      else Inl EXIT_FAILURE)"

text \<open>
  The loop \<^verbatim>\<open>for(int i=0; i<eps; i++) tmp *= 0.1;\<close> of \<^verbatim>\<open>fix_precision\<close>. When
  \<^verbatim>\<open>i\<close> is \<^verbatim>\<open>INT_MAX\<close> and still below \<^verbatim>\<open>eps\<close>, the increment overflows: the
  loop is never left with a result, which is the value \<open>None\<close>.
\<close>

function fix_precision_loop :: "int \<Rightarrow> real \<Rightarrow> real \<Rightarrow> real option" where
  "fix_precision_loop i eps tmp =
     (if of_int i < eps
      then (if i < INT_MAX then fix_precision_loop (i + 1) eps (tmp * 0.1) else None)
      else Some tmp)"
  by pat_completeness auto
termination
  by (relation "measure (\<lambda>(i, eps, tmp). nat (INT_MAX - i))") auto

definition fix_precision :: "real \<Rightarrow> real option" where
  "fix_precision eps = (if eps \<ge> 1 then fix_precision_loop 0 eps 1 else Some eps)"

subsection \<open>main\<close>

text \<open>
  A run of the program: its exit status, or \<open>None\<close> when the program does not return
  one; the calls it made to the Splinter library; and the image handed to
  \<^verbatim>\<open>iio_write_image_double_split\<close>, if any, as \<open>(filename, out, wout, hout, c)\<close>.
\<close>

record 'plan run =
  status :: "int option"
  lib_calls :: "'plan call list"
  written :: "(string \<times> (int \<Rightarrow> real) \<times> int \<times> int \<times> int) option"

definition exit_with :: "int \<Rightarrow> 'plan run" where
  "exit_with st = \<lparr>status = Some st, lib_calls = [], written = None\<rparr>"

definition no_return :: "'plan run" where
  "no_return = \<lparr>status = None, lib_calls = [], written = None\<rparr>"

text \<open>The parameters read at the start of \<^verbatim>\<open>main\<close>; \<open>argc\<close> is the length of \<open>argv\<close>.\<close>

definition arg_order :: "libc \<Rightarrow> string list \<Rightarrow> int" where
  "arg_order E argv = (if length argv > 4 then atoi E (argv ! 4) else 11)"

definition arg_boundary :: "string list \<Rightarrow> string" where
  "arg_boundary argv = (if length argv > 5 then argv ! 5 else ''hsym'')"

definition arg_eps :: "libc \<Rightarrow> string list \<Rightarrow> real" where
  "arg_eps E argv = (if length argv > 6 then atof E (argv ! 6) else 6)"

definition arg_larger :: "libc \<Rightarrow> string list \<Rightarrow> int" where
  "arg_larger E argv = (if length argv > 7 then atoi E (argv ! 7) else 0)"

definition arg_geom :: "string list \<Rightarrow> string option" where
  "arg_geom argv = (if length argv > 8 then Some (argv ! 8) else None)"

text \<open>
  \<^verbatim>\<open>main(argc, argv)\<close>. The output buffer is the block returned by \<^verbatim>\<open>malloc\<close>, at
  offset 0 of \<open>malloc_mem\<close>.
  When \<^verbatim>\<open>fix_precision\<close> does not return, neither does \<^verbatim>\<open>main\<close>, and no library
  call has been made.
\<close>

definition main :: "'plan splinter_lib \<Rightarrow> libc \<Rightarrow> string list \<Rightarrow> 'plan run" where
  "main L E argv =
     (if \<not> (4 \<le> length argv \<and> length argv \<le> 9) then exit_with EXIT_FAILURE
      else
        let input_params = argv ! 1;
            filename_in = argv ! 2;
            filename_out = argv ! 3;
            order = arg_order E argv;
            boundary = arg_boundary argv;
            eps = arg_eps E argv;
            larger = arg_larger E argv;
            geom = arg_geom argv
        in if order > MAX_ORDER L then exit_with EXIT_FAILURE
           else
             case fix_precision eps of
               None \<Rightarrow> no_return
             | Some eps \<Rightarrow>
             (case read_ext boundary larger of
               Inl st \<Rightarrow> exit_with st
             | Inr (ext, larger) \<Rightarrow>
                 (case parse_doubles E 9 input_params of (nparams, homo) \<Rightarrow>
                    if nparams \<noteq> 9 then exit_with EXIT_FAILURE
                    else
                      (case iio_read_image_double_split E filename_in of (inp, w, h, c) \<Rightarrow>
                         (case geom of
                            None \<Rightarrow>
                              let s = splinter_homography L (malloc_mem E) 0
                                        inp w h c order ext eps larger homo
                              in \<lparr>status = Some EXIT_SUCCESS, lib_calls = calls s,
                                  written = Some (filename_out, mem s, w, h, c)\<rparr>
                          | Some g \<Rightarrow>
                              (case parse_geometry L E 0 0 w h homo g of
                                 (rc, x0, y0, wout, hout) \<Rightarrow>
                                   if rc \<noteq> 0 then exit_with EXIT_FAILURE
                                   else
                                     let s = splinter_homography_geom L (malloc_mem E) 0
                                               x0 y0 wout hout inp w h c order ext eps larger homo
                                     in \<lparr>status = Some EXIT_SUCCESS, lib_calls = calls s,
                                         written = Some (filename_out, mem s, wout, hout, c)\<rparr>))))))"

section \<open>An instance of the external routines\<close>

text \<open>
  The theorems below hold for every library and every C library. To run the embedding
  on a command line, the parameters are instantiated here; these definitions are not
  taken from the two source files.
\<close>

text \<open>
  Decimal integers as \<^verbatim>\<open>atoi\<close> and the \<^verbatim>\<open>scanf\<close> conversions read them: white space
  is skipped, then an optional sign and a non-empty run of digits are taken. \<open>scan_int\<close>
  returns the value and the number of characters consumed.
\<close>

definition is_space :: "char \<Rightarrow> bool" where
  "is_space ch = (ch \<in> set [CHR '' '', CHR 0x09, CHR 0x0A, CHR 0x0B, CHR 0x0C, CHR 0x0D])"

definition is_digit :: "char \<Rightarrow> bool" where
  "is_digit ch = (48 \<le> (of_char ch :: nat) \<and> (of_char ch :: nat) \<le> 57)"

definition decimal :: "string \<Rightarrow> int" where
  "decimal ds = foldl (\<lambda>a ch. 10 * a + (of_char ch - 48)) 0 ds"

definition scan_int :: "string \<Rightarrow> (int \<times> nat) option" where
  "scan_int s =
     (let ws = takeWhile is_space s;
          r = dropWhile is_space s;
          (sg, k, r1) = (case r of
                       [] \<Rightarrow> (1, 0, r)
                     | ch # t \<Rightarrow> if ch = CHR ''-'' then (- 1, 1, t)
                                else if ch = CHR ''+'' then (1, 1, t) else (1, 0, r));
          ds = takeWhile is_digit r1
      in if ds = [] then None else Some (sg * decimal ds, length ws + k + length ds))"

text \<open>
  The instance of the C library: \<^verbatim>\<open>atoi\<close>, \<^verbatim>\<open>atof\<close> and the two \<^verbatim>\<open>sscanf\<close> calls
  on arguments whose numbers are written as decimal integers, an image reader that
  returns a one-channel image of two by two pixels, zeroes in uninitialised memory, the
  subtraction of doubles as the rounded exact difference, and \<^verbatim>\<open>INT_MIN\<close> for a
  conversion out of range.
\<close>

definition demo_atoi :: "string \<Rightarrow> int" where
  "demo_atoi s = (case scan_int s of None \<Rightarrow> 0 | Some (v, k) \<Rightarrow> v)"

definition demo_sscanf_lg_c_n :: "string \<Rightarrow> int \<Rightarrow> scan" where
  "demo_sscanf_lg_c_n s off =
     (if off < 0 \<or> int (length s) < off then Scan_none
      else case scan_int (drop (nat off) s) of
             None \<Rightarrow> Scan_none
           | Some (v, k) \<Rightarrow>
               (case drop k (drop (nat off) s) of
                  [] \<Rightarrow> Scan_lg (of_int v)
                | ch # t \<Rightarrow> Scan_lg_c (of_int v) ch (int k + 1)))"

definition demo_sscanf_geom :: "string \<Rightarrow> int \<times> int \<times> int \<times> real \<times> real" where
  "demo_sscanf_geom g =
     (case scan_int g of
        None \<Rightarrow> (0, 0, 0, 0, 0)
      | Some (w, k1) \<Rightarrow>
          (case drop k1 g of
             [] \<Rightarrow> (1, w, 0, 0, 0)
           | ch # g2 \<Rightarrow>
               if ch \<noteq> CHR ''x'' then (1, w, 0, 0, 0)
               else (case scan_int g2 of
                       None \<Rightarrow> (1, w, 0, 0, 0)
                     | Some (h, k2) \<Rightarrow>
                         (case scan_int (drop k2 g2) of
                            None \<Rightarrow> (2, w, h, 0, 0)
                          | Some (x, k3) \<Rightarrow>
                              (case scan_int (drop k3 (drop k2 g2)) of
                                 None \<Rightarrow> (3, w, h, of_int x, 0)
                               | Some (y, k4) \<Rightarrow> (4, w, h, of_int x, of_int y))))))"

text \<open>
  Rounding to a double, to nearest with ties to even: the magnitude is scaled by powers
  of two until its significand lies between \<open>2^52 = 4503599627370496\<close> and
  \<open>2^53 = 9007199254740992\<close>, or until the exponent of the subnormal numbers is
  reached, and the significand is rounded to an integer.
  Magnitudes beyond the largest double are not treated.
\<close>

definition round_half_even :: "real \<Rightarrow> int" where
  "round_half_even m =
     (let f = \<lfloor>m\<rfloor>; r = m - of_int f
      in if r < 1 / 2 then f else if 1 / 2 < r then f + 1
         else if even f then f else f + 1)"

fun scale_significand :: "nat \<Rightarrow> real \<Rightarrow> int \<Rightarrow> real \<times> int" where
  "scale_significand 0 m e = (m, e)"
| "scale_significand (Suc n) m e =
     (if 9007199254740992 \<le> m then scale_significand n (m / 2) (e + 1)
      else if m < 4503599627370496 \<and> - 1074 < e then scale_significand n (m * 2) (e - 1)
      else (m, e))"

definition round_double :: "real \<Rightarrow> real" where
  "round_double x =
     (case scale_significand 2200 \<bar>x\<bar> 0 of (m, e) \<Rightarrow>
        let r = of_int (round_half_even m) *
                  (if 0 \<le> e then 2 ^ nat e else 1 / 2 ^ nat (- e))
        in if x < 0 then - r else r)"

definition demo_libc :: libc where
  "demo_libc =
     \<lparr>atoi = demo_atoi,
      atof = (\<lambda>s. of_int (demo_atoi s)),
      sscanf_lg_c_n = demo_sscanf_lg_c_n,
      sscanf_geom = demo_sscanf_geom,
      iio_read_image_double_split = (\<lambda>name. ([1, 2, 3, 4], 2, 2, 1)),
      w_uninit = 0,
      malloc_mem = (\<lambda>a. 0),
      double_sub = (\<lambda>a b. round_double (a - b)),
      int_cast_undefined = (\<lambda>v. INT_MIN)\<rparr>"

text \<open>
  The instance of the library: the homography \<open>H\<close> is the matrix
  \<open>[a, b, c; d, e, f; g, h, i]\<close> acting on homogeneous coordinates, its inverse is taken
  up to scale as the adjugate, a plan keeps the samples and their dimensions, and
  interpolation reads the sample at the integer part of the point, zero outside the image.
\<close>

definition demo_invert_homography :: "real list \<Rightarrow> real list" where
  "demo_invert_homography H =
     (case H of
        [a, b, c, d, e, f, g, h, i] \<Rightarrow>
          [e * i - f * h, c * h - b * i, b * f - c * e,
           f * g - d * i, a * i - c * g, c * d - a * f,
           d * h - e * g, b * g - a * h, a * e - b * d]
      | _ \<Rightarrow> H)"

definition demo_apply_homography :: "real \<times> real \<Rightarrow> real list \<Rightarrow> real \<times> real" where
  "demo_apply_homography p H =
     (case H of
        [a, b, c, d, e, f, g, h, i] \<Rightarrow>
          ((a * fst p + b * snd p + c) / (g * fst p + h * snd p + i),
           (d * fst p + e * snd p + f) / (g * fst p + h * snd p + i))
      | _ \<Rightarrow> p)"

definition demo_splinter :: "real \<Rightarrow> real \<Rightarrow> real list \<times> int \<times> int \<Rightarrow> int \<Rightarrow> real" where
  "demo_splinter x y plan k =
     (case plan of (inp, w, h) \<Rightarrow>
        if 0 \<le> \<lfloor>x\<rfloor> \<and> \<lfloor>x\<rfloor> < w \<and> 0 \<le> \<lfloor>y\<rfloor> \<and> \<lfloor>y\<rfloor> < h \<and> 0 \<le> k
           \<and> nat (k * w * h + \<lfloor>y\<rfloor> * w + \<lfloor>x\<rfloor>) < length inp
        then inp ! nat (k * w * h + \<lfloor>y\<rfloor> * w + \<lfloor>x\<rfloor>) else 0)"

definition demo_lib :: "(real list \<times> int \<times> int) splinter_lib" where
  "demo_lib =
     \<lparr>MAX_ORDER = 16,
      invert_homography = demo_invert_homography,
      apply_homography = demo_apply_homography,
      splinter_plan = (\<lambda>inp w h c n boundary eps larger. (inp, w, h)),
      splinter = demo_splinter\<rparr>"

declare loop_k.simps [simp del] loop_i.simps [simp del] loop_j.simps [simp del]

declare parse_doubles_loop.simps [simp del] fix_precision_loop.simps [simp del]


section \<open>Properties of splinter\_transform.c\<close>

subsection \<open>The three loops\<close>







lemma loop_i_stop: "\<not> i < wout \<Longrightarrow> loop_i L iH plan x0 p1 wout hout c i s = s"
  by (subst loop_i.simps) simp

lemma loop_i_step:
  "i < wout \<Longrightarrow> loop_i L iH plan x0 p1 wout hout c i s =
     loop_i L iH plan x0 p1 wout hout c (i + 1) (loop_i_body L iH plan x0 p1 wout hout c i s)"
  by (subst loop_i.simps) simp

lemma out_loop_i_body [simp]:
  "out (loop_i_body L iH plan x0 p1 wout hout c i s) = out s + 1"
  by (simp add: loop_i_body_def Let_def)

lemma calls_loop_i_body [simp]:
  "calls (loop_i_body L iH plan x0 p1 wout hout c i s) =
     calls s @ [Call_splinter (fst (apply_homography L (of_int i + x0, p1) iH))
                              (snd (apply_homography L (of_int i + x0, p1) iH)) plan]"
  by (simp add: loop_i_body_def Let_def)

lemma mem_loop_i_body [simp]:
  "mem (loop_i_body L iH plan x0 p1 wout hout c i s) =
     loop_k 0 c wout hout (out s)
       (splinter L (fst (apply_homography L (of_int i + x0, p1) iH))
                   (snd (apply_homography L (of_int i + x0, p1) iH)) plan) (mem s)"
  by (simp add: loop_i_body_def Let_def)

lemma loop_i_calls:
  "calls (loop_i L iH plan x0 p1 wout hout c i s) =
     calls s @ map (\<lambda>i'. Call_splinter (fst (apply_homography L (of_int i' + x0, p1) iH))
                              (snd (apply_homography L (of_int i' + x0, p1) iH)) plan)
                [i..wout - 1]"
proof (induction L iH plan x0 p1 wout hout c i s rule: loop_i.induct)
  case (1 L iH plan x0 p1 wout hout c i s)
  show ?case
  proof (cases "i < wout")
    case True
    have u: "[i..wout - 1] = i # [i + 1..wout - 1]" using True by (simp add: upto_rec1)
    show ?thesis
      unfolding loop_i_step[OF True] "1.IH"[OF True] u by simp
  next
    case False
    then show ?thesis by (simp add: loop_i_stop)
  qed
qed





lemma loop_j_stop: "\<not> j < hout \<Longrightarrow> loop_j L iH plan x0 y0 wout hout c j s = s"
  by (subst loop_j.simps) simp

lemma loop_j_step:
  "j < hout \<Longrightarrow> loop_j L iH plan x0 y0 wout hout c j s =
     loop_j L iH plan x0 y0 wout hout c (j + 1)
       (loop_i L iH plan x0 (of_int j + y0) wout hout c 0 s)"
  by (subst loop_j.simps) simp

lemma loop_j_calls:
  "calls (loop_j L iH plan x0 y0 wout hout c j s) =
     calls s @ concat (map (\<lambda>j'. map (\<lambda>i'.
        Call_splinter (fst (apply_homography L (of_int i' + x0, of_int j' + y0) iH))
                      (snd (apply_homography L (of_int i' + x0, of_int j' + y0) iH)) plan)
                [0..wout - 1]) [j..hout - 1])"
proof (induction L iH plan x0 y0 wout hout c j s rule: loop_j.induct)
  case (1 L iH plan x0 y0 wout hout c j s)
  show ?case
  proof (cases "j < hout")
    case True
    have u: "[j..hout - 1] = j # [j + 1..hout - 1]" using True by (simp add: upto_rec1)
    show ?thesis
      unfolding loop_j_step[OF True] "1.IH"[OF True] u loop_i_calls by simp
  next
    case False
    then show ?thesis by (simp add: loop_j_stop)
  qed
qed




lemma geom_calls:
  "calls (splinter_homography_geom L m outptr x0 y0 wout hout inp w h c n boundary eps larger H) =
     [Call_splinter_plan inp w h c n boundary eps larger] @
     concat (map (\<lambda>j. map (\<lambda>i.
        Call_splinter
          (fst (apply_homography L (of_int i + x0, of_int j + y0) (invert_homography L H)))
          (snd (apply_homography L (of_int i + x0, of_int j + y0) (invert_homography L H)))
          (splinter_plan L inp w h c n boundary eps larger))
        [0..wout - 1]) [0..hout - 1]) @
     [Call_splinter_destroy_plan (splinter_plan L inp w h c n boundary eps larger)]"
  by (simp add: splinter_homography_geom_def Let_def loop_j_calls)

subsection \<open>The claims about the transform\<close>

text \<open>
  Claim C1. For every output area \<open>(x0, y0, wout, hout)\<close> and homography \<open>H\<close>,
  \<^verbatim>\<open>splinter_homography_geom\<close> makes these calls to the library and no other: first one
  call of \<^verbatim>\<open>splinter_plan\<close> on the input image; then, row after row, for each \<open>j\<close> from
  \<open>0\<close> to \<open>hout - 1\<close> and each \<open>i\<close> from \<open>0\<close> to \<open>wout - 1\<close>, one call of \<^verbatim>\<open>splinter\<close> on
  that plan at the image of \<open>(i + x0, j + y0)\<close> under the inverse of \<open>H\<close>; last one call
  of \<^verbatim>\<open>splinter_destroy_plan\<close> on that plan.
\<close>

theorem splinter_homography_geom_plan_evaluate_destroy:
  "calls (splinter_homography_geom L m outptr x0 y0 wout hout inp w h c n boundary eps larger H) =
     [Call_splinter_plan inp w h c n boundary eps larger] @
     concat (map (\<lambda>j. map (\<lambda>i.
        Call_splinter
          (fst (apply_homography L (of_int i + x0, of_int j + y0) (invert_homography L H)))
          (snd (apply_homography L (of_int i + x0, of_int j + y0) (invert_homography L H)))
          (splinter_plan L inp w h c n boundary eps larger))
        [0..wout - 1]) [0..hout - 1]) @
     [Call_splinter_destroy_plan (splinter_plan L inp w h c n boundary eps larger)]"
  by (rule geom_calls)

text \<open>
  Claim C8. \<^verbatim>\<open>splinter_homography\<close> on an image of dimensions \<open>w\<close>, \<open>h\<close>, \<open>c\<close> leaves
  the same memory, and makes the same library calls, as \<^verbatim>\<open>splinter_homography_geom\<close>
  with offset \<open>(0, 0)\<close> and output dimensions \<open>w\<close> and \<open>h\<close>.
\<close>

theorem splinter_homography_is_geom_at_origin:
  "splinter_homography L m outptr inp w h c n boundary eps larger H =
     splinter_homography_geom L m outptr 0 0 w h inp w h c n boundary eps larger H"
  by (simp add: splinter_homography_def)



section \<open>Properties of bspline\_main.c\<close>

subsection \<open>Matching a name by prefix\<close>

lemma strncmp_prefix: "(0 = strncmp g s (strlen g)) = prefix g s"
  unfolding strlen_def
proof (induction g arbitrary: s)
  case Nil
  show ?case by simp
next
  case (Cons a g)
  show ?case
  proof (cases s)
    case Nil
    then show ?thesis by simp
  next
    case (Cons b t)
    then show ?thesis using Cons.IH[of t] by simp
  qed
qed

lemma read_ext_prefix:
  "read_ext b l =
     (if prefix b ''constant'' then Inr (BOUNDARY_CONSTANT, if l = 0 then 1 else l)
      else if prefix b ''periodic'' then Inr (BOUNDARY_PERIODIC, l)
      else if prefix b ''hsymmetric'' then Inr (BOUNDARY_HSYMMETRIC, l)
      else if prefix b ''wsymmetric'' then Inr (BOUNDARY_WSYMMETRIC, l)
      else Inl EXIT_FAILURE)"
  by (simp only: read_ext_def strncmp_prefix)

subsection \<open>The precision\<close>

lemma fix_precision_loop_returns:
  "eps \<le> of_int INT_MAX \<Longrightarrow> \<exists>v. fix_precision_loop i eps tmp = Some v"
proof (induction i eps tmp rule: fix_precision_loop.induct)
  case (1 i eps tmp)
  show ?case
  proof (cases "of_int i < eps")
    case True
    then have lt: "i < INT_MAX" using "1.prems" by linarith
    have "\<exists>v. fix_precision_loop (i + 1) eps (tmp * 0.1) = Some v"
      using "1.IH"[OF True lt "1.prems"] .
    then show ?thesis using True lt by (subst fix_precision_loop.simps) simp
  next
    case False
    then show ?thesis by (subst fix_precision_loop.simps) simp
  qed
qed

lemma fix_precision_returns: "eps \<le> of_int INT_MAX \<Longrightarrow> \<exists>v. fix_precision eps = Some v"
  by (simp add: fix_precision_def fix_precision_loop_returns)

lemma fix_precision_loop_overflow:
  "of_int INT_MAX < eps \<Longrightarrow> i \<le> INT_MAX \<Longrightarrow> fix_precision_loop i eps tmp = None"
proof (induction i eps tmp rule: fix_precision_loop.induct)
  case (1 i eps tmp)
  have below: "of_int i < eps" using "1.prems" by linarith
  show ?case
  proof (cases "i < INT_MAX")
    case True
    have "fix_precision_loop (i + 1) eps (tmp * 0.1) = None"
      using "1.IH"[OF below True "1.prems"(1)] True by simp
    then show ?thesis using below True by (subst fix_precision_loop.simps) simp
  next
    case False
    then show ?thesis using below by (subst fix_precision_loop.simps) simp
  qed
qed

lemma fix_precision_overflow: "of_int INT_MAX < eps \<Longrightarrow> fix_precision eps = None"
proof -
  assume h: "of_int INT_MAX < eps"
  then have "1 \<le> eps" by (simp add: INT_MAX_def)
  moreover have "(0::int) \<le> INT_MAX" by (simp add: INT_MAX_def)
  ultimately show ?thesis using h by (simp add: fix_precision_def fix_precision_loop_overflow)
qed

text \<open>
  Claim C3 says that for every real \<open>eps \<ge> 1\<close>, not only for the integers,
  \<^verbatim>\<open>fix_precision\<close> returns ten to the power minus \<open>eps\<close>, as the comment above the
  function and the usage text do. The code does not: at \<open>eps = 3/2\<close> the loop runs for
  \<open>i = 0\<close> and \<open>i = 1\<close>, so the result is \<open>1/100\<close>, which is not ten to the power
  \<open>- 3/2\<close>.
\<close>

theorem fix_precision_at_one_and_a_half:
  "1 \<le> (3 / 2 :: real) \<and> fix_precision (3 / 2) = Some (1 / 100) \<and>
   (1 / 100 :: real) \<noteq> 10 powr (- (3 / 2))"
proof -
  have v: "fix_precision (3 / 2) = Some (1 / 100)"
    by (simp add: fix_precision_def fix_precision_loop.simps INT_MAX_def)
  have "(10::real) powr (- (3 / 2)) \<noteq> 1 / 100"
  proof
    assume "(10::real) powr (- (3 / 2)) = 1 / 100"
    moreover have "(1 / 100 :: real) = 10 powr (- 2)"
      by (simp add: powr_minus_divide)
    ultimately have "(10::real) powr (- (3 / 2)) = 10 powr (- 2)" by simp
    then show False using powr_inj[of 10 "- (3 / 2)" "- 2"] by simp
  qed
  then show ?thesis using v by simp
qed

subsection \<open>The boundary name\<close>

text \<open>
  Claim C10. \<^verbatim>\<open>read_ext\<close> matches the boundary name by prefix, trying \<^verbatim>\<open>constant\<close>,
  \<^verbatim>\<open>periodic\<close>, \<^verbatim>\<open>hsymmetric\<close>, \<^verbatim>\<open>wsymmetric\<close> in that order and taking the first of
  which the argument is a prefix; it exits with failure exactly when the argument is a
  prefix of none. So the empty string and \<^verbatim>\<open>c\<close> give the constant extension, with
  \<^verbatim>\<open>larger\<close> forced to 1 when it was 0, and \<^verbatim>\<open>h\<close> gives the half-symmetric one.
\<close>

theorem read_ext_first_prefix_match:
  "read_ext b l =
     (if prefix b ''constant'' then Inr (BOUNDARY_CONSTANT, if l = 0 then 1 else l)
      else if prefix b ''periodic'' then Inr (BOUNDARY_PERIODIC, l)
      else if prefix b ''hsymmetric'' then Inr (BOUNDARY_HSYMMETRIC, l)
      else if prefix b ''wsymmetric'' then Inr (BOUNDARY_WSYMMETRIC, l)
      else Inl EXIT_FAILURE) \<and>
   ((\<exists>st. read_ext b l = Inl st) =
      (\<not> prefix b ''constant'' \<and> \<not> prefix b ''periodic'' \<and>
       \<not> prefix b ''hsymmetric'' \<and> \<not> prefix b ''wsymmetric'')) \<and>
   read_ext [] 0 = Inr (BOUNDARY_CONSTANT, 1) \<and>
   read_ext ''c'' 0 = Inr (BOUNDARY_CONSTANT, 1) \<and>
   read_ext ''h'' l = Inr (BOUNDARY_HSYMMETRIC, l)"
  by (simp add: read_ext_prefix)


subsection \<open>The output geometry\<close>









text \<open>
  Claim C6. With a geometry that selects \<^verbatim>\<open>center\<close>, \<^verbatim>\<open>parse_geometry\<close> returns 0,
  leaves \<open>w\<close> and \<open>h\<close> unchanged, and sets \<open>(x, y)\<close> so that the centre of the output
  window, \<open>(x + w/2, y + h/2)\<close>, is the image under \<open>H\<close> of the centre of the input
  window. The arithmetic is that of the real numbers.
\<close>

theorem parse_geometry_center_preserved:
  "prefix g ''center'' \<Longrightarrow>
   (case parse_geometry L E x y w h H g of
      (rc, x', y', w', h') \<Rightarrow>
        rc = 0 \<and> w' = w \<and> h' = h \<and>
        (x' + of_int w' / 2, y' + of_int h' / 2) =
          apply_homography L (x + of_int w / 2, y + of_int h / 2) H)"
  by (simp add: parse_geometry_def strncmp_prefix Let_def)

text \<open>
  An instance of C6: under \<open>(x, y) \<mapsto> (2x + 1, 3y + 1)\<close> the centre \<open>(1, 1)\<close> of the two
  by two image goes to \<open>(3, 4)\<close>, so the offset becomes \<open>(2, 3)\<close>.
\<close>

theorem parse_geometry_center_preserved_witness:
  "prefix ''center'' ''center'' \<and>
   parse_geometry demo_lib demo_libc 0 0 2 2 [2, 0, 1, 0, 3, 1, 0, 0, 1] ''center'' =
     (0, 2, 3, 2, 2) \<and>
   (2 + 2 / 2, 3 + 2 / 2) =
     apply_homography demo_lib (0 + 2 / 2, 0 + 2 / 2) [2, 0, 1, 0, 3, 1, 0, 0, 1]"
proof -
  have v: "parse_geometry demo_lib demo_libc 0 0 2 2 [2, 0, 1, 0, 3, 1, 0, 0, 1] ''center'' =
             (0, 2, 3, 2, 2)"
    by (simp add: parse_geometry_def strncmp_prefix Let_def demo_lib_def
          demo_apply_homography_def)
  have p: "prefix ''center'' ''center''" by simp
  show ?thesis
    using parse_geometry_center_preserved
            [OF p, where L = demo_lib and E = demo_libc and x = 0 and y = 0 and w = 2
               and h = 2 and H = "[2, 0, 1, 0, 3, 1, 0, 0, 1]"]
    unfolding v by simp
qed

subsection \<open>The command line\<close>

lemma status_exit_with [simp]: "status (exit_with st) = Some st"
  by (simp add: exit_with_def)

lemma lib_calls_exit_with [simp]: "lib_calls (exit_with st) = []"
  by (simp add: exit_with_def)

lemma status_no_return [simp]: "status no_return = None"
  by (simp add: no_return_def)

lemma lib_calls_no_return [simp]: "lib_calls no_return = []"
  by (simp add: no_return_def)

lemma read_ext_Inl: "read_ext b l = Inl st \<Longrightarrow> st = EXIT_FAILURE"
  by (auto simp: read_ext_def split: if_splits)

lemma main_status:
  "status (main L E argv) = None \<or> status (main L E argv) = Some EXIT_SUCCESS \<or>
   status (main L E argv) = Some EXIT_FAILURE"
  by (auto simp: main_def Let_def dest: read_ext_Inl
           split: sum.splits prod.splits option.splits)

lemma main_no_return_iff:
  "(status (main L E argv) = None) =
   (4 \<le> length argv \<and> length argv \<le> 9 \<and> arg_order E argv \<le> MAX_ORDER L \<and>
    fix_precision (arg_eps E argv) = None)"
  by (auto simp: main_def Let_def split: sum.splits prod.splits option.splits)

lemma main_success_iff:
  "(status (main L E argv) = Some EXIT_SUCCESS) =
   (4 \<le> length argv \<and> length argv \<le> 9 \<and>
    arg_order E argv \<le> MAX_ORDER L \<and>
    (\<exists>v. fix_precision (arg_eps E argv) = Some v) \<and>
    (\<exists>r. read_ext (arg_boundary argv) (arg_larger E argv) = Inr r) \<and>
    fst (parse_doubles E 9 (argv ! 1)) = 9 \<and>
    (\<forall>g. arg_geom argv = Some g \<longrightarrow>
       fst (parse_geometry L E 0 0
              (fst (snd (iio_read_image_double_split E (argv ! 2))))
              (fst (snd (snd (iio_read_image_double_split E (argv ! 2)))))
              (snd (parse_doubles E 9 (argv ! 1))) g) = 0))"
  by (auto simp: main_def Let_def EXIT_SUCCESS_def EXIT_FAILURE_def dest!: read_ext_Inl
           split: sum.splits prod.splits option.splits)

lemma main_fails:
  "status (main L E argv) \<noteq> None \<Longrightarrow> status (main L E argv) \<noteq> Some EXIT_SUCCESS \<Longrightarrow>
   \<exists>st. status (main L E argv) = Some st \<and> st \<noteq> 0"
  using main_status[of L E argv] by (auto simp: EXIT_FAILURE_def)

lemma main_plan_call:
  "Call_splinter_plan inp w h c n ext eps larger \<in> set (lib_calls (main L E argv)) \<Longrightarrow>
   n = arg_order E argv \<and> n \<le> MAX_ORDER L \<and>
   read_ext (arg_boundary argv) (arg_larger E argv) = Inr (ext, larger) \<and>
   fix_precision (arg_eps E argv) = Some eps"
  by (auto simp: main_def Let_def geom_calls splinter_homography_def
           split: sum.splits prod.splits option.splits if_splits)

lemma parse_doubles_loop_le:
  "i \<le> nmax \<Longrightarrow> fst (parse_doubles_loop E nmax str i off w t) \<le> nmax"
proof (induction E nmax str i off w t rule: parse_doubles_loop.induct)
  case (1 E nmax str i off w t)
  show ?case
  proof (cases "i < nmax")
    case True
    show ?thesis
    proof (cases "sscanf_lg_c_n E str off")
      case Scan_none
      then show ?thesis using True by (subst parse_doubles_loop.simps) simp
    next
      case (Scan_lg d)
      then show ?thesis
        using True "1.IH"(1)[OF True Scan_lg] by (subst parse_doubles_loop.simps) simp
    next
      case (Scan_lg_c d ch w')
      then show ?thesis
        using True "1.IH"(2)[OF True Scan_lg_c] by (subst parse_doubles_loop.simps) simp
    qed
  next
    case False
    then show ?thesis using "1.prems" by (subst parse_doubles_loop.simps) simp
  qed
qed

lemma parse_doubles_le: "0 \<le> nmax \<Longrightarrow> fst (parse_doubles E nmax s) \<le> nmax"
  by (simp add: parse_doubles_def parse_doubles_loop_le)

text \<open>
  Claim C2, as stated, fails on three command lines. The homography of the first has ten
  numbers, so it does not parse to exactly nine, yet \<^verbatim>\<open>parse_doubles\<close> stops at the ninth
  and the program ends with status 0. The geometry \<^verbatim>\<open>2x1abc\<close> of the second is not of
  the form \<^verbatim>\<open>wxh\<close>, yet \<^verbatim>\<open>sscanf\<close> converts two items and the program ends with status
  0. The third has a boundary name that is not recognized and the precision
  \<open>3000000000\<close>, above \<^verbatim>\<open>INT_MAX\<close>: the loop of \<^verbatim>\<open>fix_precision\<close>, which runs before
  the boundary name is read, is not left, and the program does not end with a status.
\<close>

theorem main_invalid_arguments_counterexample:
  "status (main demo_lib demo_libc
     [''bspline'', ''1 0 0 0 1 0 0 0 1 7'', ''in.png'', ''out.png'']) = Some 0 \<and>
   status (main demo_lib demo_libc
     [''bspline'', ''1 0 0 0 1 0 0 0 1'', ''in.png'', ''out.png'', ''3'', ''hsym'', ''6'', ''0'',
      ''2x1abc'']) = Some 0 \<and>
   status (main demo_lib demo_libc
     [''bspline'', ''1 0 0 0 1 0 0 0 1'', ''in.png'', ''out.png'', ''3'', ''foo'',
      ''3000000000'']) = None"
proof -
  let ?c = "[''bspline'', ''1 0 0 0 1 0 0 0 1'', ''in.png'', ''out.png'', ''3'', ''foo'',
             ''3000000000'']"
  have a: "status (main demo_lib demo_libc
     [''bspline'', ''1 0 0 0 1 0 0 0 1 7'', ''in.png'', ''out.png'']) = Some 0"
    by code_simp
  have b: "status (main demo_lib demo_libc
     [''bspline'', ''1 0 0 0 1 0 0 0 1'', ''in.png'', ''out.png'', ''3'', ''hsym'', ''6'', ''0'',
      ''2x1abc'']) = Some 0"
    by code_simp
  have len: "4 \<le> length ?c \<and> length ?c \<le> 9" by simp
  have ord: "arg_order demo_libc ?c \<le> MAX_ORDER demo_lib" by code_simp
  have eps: "arg_eps demo_libc ?c = 3000000000" by code_simp
  have "fix_precision (arg_eps demo_libc ?c) = None"
    unfolding eps by (rule fix_precision_overflow) (simp add: INT_MAX_def)
  then have c: "status (main demo_lib demo_libc ?c) = None"
    using len ord by (simp only: main_no_return_iff simp_thms)
  show ?thesis using a b c by (intro conjI)
qed

text \<open>
  Claim C2, amended. An order above \<^verbatim>\<open>MAX_ORDER\<close> makes the program end with a status
  that is not zero. When the precision is at most \<^verbatim>\<open>INT_MAX\<close>, so do: a boundary name
  that is a prefix of none of the four names; a geometry that selects neither
  \<^verbatim>\<open>center\<close> nor \<^verbatim>\<open>auto\<close> and from which \<^verbatim>\<open>sscanf\<close> converts neither two nor four
  items, or converts a width or a height that is not positive; a homography in which
  \<^verbatim>\<open>parse_doubles\<close> counts fewer than nine numbers.
\<close>

theorem main_invalid_arguments_fail:
  "(4 < length argv \<and> MAX_ORDER L < atoi E (argv ! 4)
      \<longrightarrow> (\<exists>st. status (main L E argv) = Some st \<and> st \<noteq> 0)) \<and>
   (arg_eps E argv \<le> of_int INT_MAX \<longrightarrow>
      (5 < length argv \<and> \<not> prefix (argv ! 5) ''constant'' \<and>
       \<not> prefix (argv ! 5) ''periodic'' \<and> \<not> prefix (argv ! 5) ''hsymmetric'' \<and>
       \<not> prefix (argv ! 5) ''wsymmetric''
         \<longrightarrow> (\<exists>st. status (main L E argv) = Some st \<and> st \<noteq> 0)) \<and>
      (8 < length argv \<and> \<not> prefix (argv ! 8) ''center'' \<and> \<not> prefix (argv ! 8) ''auto'' \<and>
       (case sscanf_geom E (argv ! 8) of
          (n, sw, sh, sx, sy) \<Rightarrow> (n \<noteq> 2 \<and> n \<noteq> 4) \<or> sw \<le> 0 \<or> sh \<le> 0)
         \<longrightarrow> (\<exists>st. status (main L E argv) = Some st \<and> st \<noteq> 0)) \<and>
      (1 < length argv \<and> fst (parse_doubles E 9 (argv ! 1)) < 9
         \<longrightarrow> (\<exists>st. status (main L E argv) = Some st \<and> st \<noteq> 0)))"
proof -
  have b: "\<exists>st. status (main L E argv) = Some st \<and> st \<noteq> 0"
    if h: "4 < length argv \<and> MAX_ORDER L < atoi E (argv ! 4)"
  proof -
    have "status (main L E argv) \<noteq> None"
      unfolding main_no_return_iff using h by (simp add: arg_order_def)
    moreover have "status (main L E argv) \<noteq> Some EXIT_SUCCESS"
      unfolding main_success_iff using h by (simp add: arg_order_def)
    ultimately show ?thesis by (rule main_fails)
  qed
  have f: "\<exists>st. status (main L E argv) = Some st \<and> st \<noteq> 0"
    if eps: "arg_eps E argv \<le> of_int INT_MAX"
      and ns: "status (main L E argv) \<noteq> Some EXIT_SUCCESS"
  proof -
    have "status (main L E argv) \<noteq> None"
      unfolding main_no_return_iff using fix_precision_returns[OF eps] by auto
    then show ?thesis using ns by (rule main_fails)
  qed
  have a: "status (main L E argv) \<noteq> Some EXIT_SUCCESS"
    if "5 < length argv \<and> \<not> prefix (argv ! 5) ''constant'' \<and>
        \<not> prefix (argv ! 5) ''periodic'' \<and> \<not> prefix (argv ! 5) ''hsymmetric'' \<and>
        \<not> prefix (argv ! 5) ''wsymmetric''"
    unfolding main_success_iff using that by (simp add: read_ext_prefix arg_boundary_def)
  have c: "status (main L E argv) \<noteq> Some EXIT_SUCCESS"
    if "8 < length argv \<and> \<not> prefix (argv ! 8) ''center'' \<and> \<not> prefix (argv ! 8) ''auto'' \<and>
        (case sscanf_geom E (argv ! 8) of
           (n, sw, sh, sx, sy) \<Rightarrow> (n \<noteq> 2 \<and> n \<noteq> 4) \<or> sw \<le> 0 \<or> sh \<le> 0)"
    unfolding main_success_iff using that
    by (auto simp: arg_geom_def parse_geometry_def strncmp_prefix Let_def split: prod.splits)
  have d: "status (main L E argv) \<noteq> Some EXIT_SUCCESS"
    if "1 < length argv \<and> fst (parse_doubles E 9 (argv ! 1)) < 9"
    unfolding main_success_iff using that by simp
  show ?thesis
    by (intro conjI impI) (rule b, assumption, (rule f, assumption, erule a c d)+)
qed

text \<open>
  Instances of the amended C2, one command line for each invalid argument: the order 17
  above the maximal order 16 of the instance, the boundary \<^verbatim>\<open>foo\<close>, the geometry
  \<^verbatim>\<open>3x\<close>, and the homography \<^verbatim>\<open>1 2 3\<close>, the last three with the default precision 6.
\<close>

theorem main_invalid_arguments_fail_witness:
  "(status (main demo_lib demo_libc
      [''bspline'', ''1 0 0 0 1 0 0 0 1'', ''in.png'', ''out.png'', ''17'']) \<noteq> None \<and>
    status (main demo_lib demo_libc
      [''bspline'', ''1 0 0 0 1 0 0 0 1'', ''in.png'', ''out.png'', ''17'']) \<noteq> Some 0) \<and>
   (status (main demo_lib demo_libc
      [''bspline'', ''1 0 0 0 1 0 0 0 1'', ''in.png'', ''out.png'', ''3'', ''foo'']) \<noteq> None \<and>
    status (main demo_lib demo_libc
      [''bspline'', ''1 0 0 0 1 0 0 0 1'', ''in.png'', ''out.png'', ''3'', ''foo'']) \<noteq> Some 0) \<and>
   (status (main demo_lib demo_libc
      [''bspline'', ''1 0 0 0 1 0 0 0 1'', ''in.png'', ''out.png'', ''3'', ''hsym'', ''6'', ''0'',
       ''3x'']) \<noteq> None \<and>
    status (main demo_lib demo_libc
      [''bspline'', ''1 0 0 0 1 0 0 0 1'', ''in.png'', ''out.png'', ''3'', ''hsym'', ''6'', ''0'',
       ''3x'']) \<noteq> Some 0) \<and>
   (status (main demo_lib demo_libc
      [''bspline'', ''1 2 3'', ''in.png'', ''out.png'']) \<noteq> None \<and>
    status (main demo_lib demo_libc
      [''bspline'', ''1 2 3'', ''in.png'', ''out.png'']) \<noteq> Some 0)"
proof -
  let ?a = "[''bspline'', ''1 0 0 0 1 0 0 0 1'', ''in.png'', ''out.png'', ''3'', ''foo'']"
  let ?b = "[''bspline'', ''1 0 0 0 1 0 0 0 1'', ''in.png'', ''out.png'', ''17'']"
  let ?c = "[''bspline'', ''1 0 0 0 1 0 0 0 1'', ''in.png'', ''out.png'', ''3'', ''hsym'', ''6'',
             ''0'', ''3x'']"
  let ?d = "[''bspline'', ''1 2 3'', ''in.png'', ''out.png'']"
  have ea: "arg_eps demo_libc ?a \<le> of_int INT_MAX" by code_simp
  have ec: "arg_eps demo_libc ?c \<le> of_int INT_MAX" by code_simp
  have ed: "arg_eps demo_libc ?d \<le> of_int INT_MAX" by code_simp
  have ha: "5 < length ?a \<and> \<not> prefix (?a ! 5) ''constant'' \<and> \<not> prefix (?a ! 5) ''periodic'' \<and>
            \<not> prefix (?a ! 5) ''hsymmetric'' \<and> \<not> prefix (?a ! 5) ''wsymmetric''"
    by simp
  have hb: "4 < length ?b \<and> MAX_ORDER demo_lib < atoi demo_libc (?b ! 4)"
    by code_simp
  have hc: "8 < length ?c \<and> \<not> prefix (?c ! 8) ''center'' \<and> \<not> prefix (?c ! 8) ''auto'' \<and>
            (case sscanf_geom demo_libc (?c ! 8) of
               (n, sw, sh, sx, sy) \<Rightarrow> (n \<noteq> 2 \<and> n \<noteq> 4) \<or> sw \<le> 0 \<or> sh \<le> 0)"
    by code_simp
  have hd: "1 < length ?d \<and> fst (parse_doubles demo_libc 9 (?d ! 1)) < 9"
    by code_simp
  have b: "\<exists>st. status (main demo_lib demo_libc ?b) = Some st \<and> st \<noteq> 0"
    by (rule main_invalid_arguments_fail
          [of ?b demo_lib demo_libc, THEN conjunct1, THEN mp]) (rule hb)
  have a: "\<exists>st. status (main demo_lib demo_libc ?a) = Some st \<and> st \<noteq> 0"
    by (rule main_invalid_arguments_fail
          [of ?a demo_lib demo_libc, THEN conjunct2, THEN mp, OF ea, THEN conjunct1, THEN mp])
       (rule ha)
  have c: "\<exists>st. status (main demo_lib demo_libc ?c) = Some st \<and> st \<noteq> 0"
    by (rule main_invalid_arguments_fail
          [of ?c demo_lib demo_libc, THEN conjunct2, THEN mp, OF ec, THEN conjunct2,
           THEN conjunct1, THEN mp])
       (rule hc)
  have d: "\<exists>st. status (main demo_lib demo_libc ?d) = Some st \<and> st \<noteq> 0"
    by (rule main_invalid_arguments_fail
          [of ?d demo_lib demo_libc, THEN conjunct2, THEN mp, OF ed, THEN conjunct2,
           THEN conjunct2, THEN mp])
       (rule hd)
  have n: "(\<exists>st. s = Some st \<and> st \<noteq> 0) \<Longrightarrow> s \<noteq> None \<and> s \<noteq> Some 0"
    for s :: "int option"
    by auto
  show ?thesis by (intro conjI n[OF b] n[OF a] n[OF c] n[OF d])
qed

text \<open>
  Claim C4. When the boundary name selects the constant extension, \<^verbatim>\<open>read_ext\<close> sets
  \<^verbatim>\<open>larger\<close> to 1 if it was 0 and leaves it otherwise, so it is never 0 afterwards; for
  the three other extensions \<^verbatim>\<open>larger\<close> is unchanged. Hence every call of
  \<^verbatim>\<open>splinter_plan\<close> made by \<^verbatim>\<open>main\<close> with the constant extension has \<^verbatim>\<open>larger\<close>
  different from 0.
\<close>

theorem constant_extension_forces_larger:
  "(prefix b ''constant'' \<longrightarrow>
      read_ext b l = Inr (BOUNDARY_CONSTANT, if l = 0 then 1 else l)) \<and>
   (read_ext b l = Inr (ext, l') \<longrightarrow>
      (ext = BOUNDARY_CONSTANT \<longrightarrow> l' \<noteq> 0) \<and> (ext \<noteq> BOUNDARY_CONSTANT \<longrightarrow> l' = l)) \<and>
   (Call_splinter_plan inp w h c n BOUNDARY_CONSTANT eps larger
      \<in> set (lib_calls (main L E argv)) \<longrightarrow> larger \<noteq> 0)"
proof -
  have r: "read_ext b l = Inr (ext, l') \<longrightarrow>
      (ext = BOUNDARY_CONSTANT \<longrightarrow> l' \<noteq> 0) \<and> (ext \<noteq> BOUNDARY_CONSTANT \<longrightarrow> l' = l)" for b l ext l'
    by (simp add: read_ext_prefix)
  have p: "prefix b ''constant'' \<longrightarrow>
      read_ext b l = Inr (BOUNDARY_CONSTANT, if l = 0 then 1 else l)"
    by (simp add: read_ext_prefix)
  have m: "Call_splinter_plan inp w h c n BOUNDARY_CONSTANT eps larger
      \<in> set (lib_calls (main L E argv)) \<longrightarrow> larger \<noteq> 0"
  proof
    assume "Call_splinter_plan inp w h c n BOUNDARY_CONSTANT eps larger
              \<in> set (lib_calls (main L E argv))"
    then have "read_ext (arg_boundary argv) (arg_larger E argv) =
                 Inr (BOUNDARY_CONSTANT, larger)"
      by (simp add: main_plan_call)
    then show "larger \<noteq> 0"
      using r[of "arg_boundary argv" "arg_larger E argv" BOUNDARY_CONSTANT larger] by simp
  qed
  show ?thesis by (rule conjI[OF p conjI[OF r m]])
qed

text \<open>
  Instances of C4: the names \<^verbatim>\<open>const\<close> and \<^verbatim>\<open>per\<close> with \<^verbatim>\<open>larger\<close> equal to 0, and
  the command line that asks for the constant extension on the exact domain.
\<close>

theorem constant_extension_forces_larger_witness:
  "read_ext ''const'' 0 = Inr (BOUNDARY_CONSTANT, 1) \<and>
   read_ext ''per'' 0 = Inr (BOUNDARY_PERIODIC, 0) \<and>
   Call_splinter_plan [1, 2, 3, 4] 2 2 1 3 BOUNDARY_CONSTANT (1 / 1000000) 1
     \<in> set (lib_calls (main demo_lib demo_libc
         [''bspline'', ''1 0 0 0 1 0 0 0 1'', ''in.png'', ''out.png'', ''3'', ''constant'', ''6'',
          ''0''])) \<and>
   (1::int) \<noteq> 0"
proof -
  let ?argv = "[''bspline'', ''1 0 0 0 1 0 0 0 1'', ''in.png'', ''out.png'', ''3'', ''constant'',
                ''6'', ''0'']"
  have p: "prefix ''const'' ''constant''" by simp
  have c: "read_ext ''const'' 0 = Inr (BOUNDARY_CONSTANT, 1)"
    using constant_extension_forces_larger[of "''const''" 0, THEN conjunct1, THEN mp, OF p]
    by simp
  have q: "read_ext ''per'' 0 = Inr (BOUNDARY_PERIODIC, 0)"
    by (simp add: read_ext_prefix)
  have e: "Call_splinter_plan [1, 2, 3, 4] 2 2 1 3 BOUNDARY_CONSTANT (1 / 1000000) 1
             \<in> set (lib_calls (main demo_lib demo_libc ?argv))"
    by code_simp
  have n: "(1::int) \<noteq> 0"
    by (rule constant_extension_forces_larger
          [THEN conjunct2, THEN conjunct2, THEN mp, OF e])
  show ?thesis using c q e n by blast
qed

text \<open>
  Whenever a run ends with success, the first library call is \<^verbatim>\<open>splinter_plan\<close> with
  the order read from the command line, whatever its sign.
\<close>

lemma main_success_calls_plan:
  "status (main L E argv) = Some EXIT_SUCCESS \<Longrightarrow>
   \<exists>inp w h c ext eps larger rest.
     lib_calls (main L E argv) =
       Call_splinter_plan inp w h c (arg_order E argv) ext eps larger # rest"
  by (auto simp: main_def Let_def geom_calls splinter_homography_def
             EXIT_SUCCESS_def EXIT_FAILURE_def
           dest!: read_ext_Inl split: sum.splits prod.splits option.splits if_splits)

text \<open>
  Claim C7 fails on a negative order. \<^verbatim>\<open>main\<close> compares the order with \<^verbatim>\<open>MAX_ORDER\<close>
  only: on the command line below \<^verbatim>\<open>atoi\<close> gives \<open>- 1\<close>, the program ends with success,
  and \<^verbatim>\<open>splinter_plan\<close> has been called with the order \<open>- 1\<close>.
\<close>

theorem main_negative_order_reaches_splinter_plan:
  "status (main demo_lib demo_libc
     [''bspline'', ''1 0 0 0 1 0 0 0 1'', ''in.png'', ''out.png'', ''-1'']) = Some EXIT_SUCCESS \<and>
   hd (lib_calls (main demo_lib demo_libc
     [''bspline'', ''1 0 0 0 1 0 0 0 1'', ''in.png'', ''out.png'', ''-1''])) =
     Call_splinter_plan [1, 2, 3, 4] 2 2 1 (- 1) BOUNDARY_HSYMMETRIC (1 / 1000000) 0"
  by code_simp

end
